theory Spec2Isabelle
  imports Complex_Main "HOL-Library.AList"
begin

section \<open>Python values used by \<open>VCFToVariation.py\<close>\<close>

text \<open>
  Python \<open>str\<close> values are modelled as \<open>string\<close> restricted to ASCII text (VCF meta
  lines, contig and sample identifiers, validator output). Exceptions are values of
  \<open>error\<close>; a function that may raise returns \<open>error + 'a\<close> with \<open>Inl\<close> the raised
  exception.
\<close>

datatype error =
    ValueError string
  | TypeError string
  | IndexError
  | KeyError string
  | OSError string
  | SystemError string

subsection \<open>\<open>str.upper\<close>, \<open>str.strip\<close>, \<open>str.rstrip\<close>, \<open>str.startswith\<close>\<close>

definition isspace :: "char \<Rightarrow> bool" where
  \<comment> \<open>ASCII characters that Python's \<open>str.strip()\<close> removes: TAB, LF, VT, FF, CR,
      FS, GS, RS, US and the space.\<close>
  "isspace c = (let n = (of_char c :: nat) in (9 \<le> n \<and> n \<le> 13) \<or> (28 \<le> n \<and> n \<le> 32))"

definition upper_char :: "char \<Rightarrow> char" where
  "upper_char c =
     (let n = (of_char c :: nat) in if 97 \<le> n \<and> n \<le> 122 then char_of (n - 32) else c)"

definition upper :: "string \<Rightarrow> string" where
  "upper s = map upper_char s"

definition lstrip :: "string \<Rightarrow> string" where
  "lstrip s = dropWhile isspace s"

definition rstrip :: "string \<Rightarrow> string" where
  "rstrip s = rev (dropWhile isspace (rev s))"

definition strip :: "string \<Rightarrow> string" where
  "strip s = rstrip (lstrip s)"

definition lower_char :: "char \<Rightarrow> char" where
  "lower_char c =
     (let n = (of_char c :: nat) in if 65 \<le> n \<and> n \<le> 90 then char_of (n + 32) else c)"

fun startswith :: "string \<Rightarrow> string \<Rightarrow> bool" where
  "startswith s [] = True"
| "startswith [] (p # ps) = False"
| "startswith (c # cs) (p # ps) = (c = p \<and> startswith cs ps)"

subsection \<open>\<open>str.split(sep)\<close>, slices and \<open>str.join\<close>\<close>

fun split_on :: "char \<Rightarrow> string \<Rightarrow> string list" where
  \<comment> \<open>\<open>s.split(sep)\<close> for a one-character separator: never the empty list.\<close>
  "split_on sep [] = [[]]"
| "split_on sep (c # cs) =
     (if c = sep then [] # split_on sep cs
      else (case split_on sep cs of
              [] \<Rightarrow> [[c]]
            | t # ts \<Rightarrow> (c # t) # ts))"

definition last_chars :: "nat \<Rightarrow> string \<Rightarrow> string" where
  \<comment> \<open>\<open>s[-n:]\<close> for \<open>n > 0\<close>: the last \<open>n\<close> characters, all of \<open>s\<close> when it is shorter.\<close>
  "last_chars n s = drop (length s - n) s"

definition slice :: "nat \<Rightarrow> nat \<Rightarrow> string \<Rightarrow> string" where
  \<comment> \<open>\<open>s[i:j]\<close> for non-negative \<open>i\<close>, \<open>j\<close>.\<close>
  "slice i j s = drop i (take j s)"

definition strip_char :: "char \<Rightarrow> string \<Rightarrow> string" where
  \<comment> \<open>\<open>s.strip(c)\<close> for a one-character argument.\<close>
  "strip_char c s = rev (dropWhile (\<lambda>x. x = c) (rev (dropWhile (\<lambda>x. x = c) s)))"

fun join :: "string \<Rightarrow> string list \<Rightarrow> string" where
  "join sep [] = []"
| "join sep [x] = x"
| "join sep (x # y # ys) = x @ sep @ join sep (y # ys)"

subsection \<open>\<open>float(str)\<close>\<close>

text \<open>
  A Python float is modelled by the number its text denotes: \<open>Finite r\<close> stands for the
  double nearest to the rational \<open>r\<close>. The program only compares floats parsed from at
  most four characters with the literals \<open>4.0\<close> and \<open>4.1\<close>; on such values rounding to
  the nearest double is injective and monotone, so the comparisons of the doubles are
  the comparisons of the rationals. Overflow to infinity of long exponents is left out.
\<close>

datatype pyfloat = Finite rat | PosInf | NegInf | NaN

fun float_ge :: "pyfloat \<Rightarrow> pyfloat \<Rightarrow> bool" where
  "float_ge NaN y = False"
| "float_ge x NaN = False"
| "float_ge PosInf y = True"
| "float_ge x NegInf = True"
| "float_ge NegInf y = False"
| "float_ge x PosInf = False"
| "float_ge (Finite a) (Finite b) = (b \<le> a)"

definition is_digit :: "char \<Rightarrow> bool" where
  "is_digit c = (let n = (of_char c :: nat) in 48 \<le> n \<and> n \<le> 57)"

definition digit_val :: "char \<Rightarrow> nat" where
  "digit_val c = of_char c - 48"

fun digits_us :: "string \<Rightarrow> nat list \<times> string" where
  \<comment> \<open>\<open>(["_"] digit)*\<close>: the digits read and the unread rest.\<close>
  "digits_us [] = ([], [])"
| "digits_us [c] = (if is_digit c then ([digit_val c], []) else ([], [c]))"
| "digits_us (c # d # cs) =
     (if is_digit c then (case digits_us (d # cs) of (ds, r) \<Rightarrow> (digit_val c # ds, r))
      else if c = CHR ''_'' \<and> is_digit d
           then (case digits_us cs of (ds, r) \<Rightarrow> (digit_val d # ds, r))
      else ([], c # d # cs))"

definition digitpart :: "string \<Rightarrow> (nat list \<times> string) option" where
  \<comment> \<open>\<open>digit (["_"] digit)*\<close>\<close>
  "digitpart s =
     (case s of
        [] \<Rightarrow> None
      | c # cs \<Rightarrow> if is_digit c
                 then (case digits_us cs of (ds, r) \<Rightarrow> Some (digit_val c # ds, r))
                 else None)"

definition number :: "string \<Rightarrow> (nat list \<times> nat list \<times> string) option" where
  \<comment> \<open>\<open>[digitpart] "." digitpart | digitpart ["."]\<close>: integer digits, fraction digits,
      rest.\<close>
  "number s =
     (case digitpart s of
        Some (ip, r) \<Rightarrow>
          (case r of
             [] \<Rightarrow> Some (ip, [], [])
           | c # r' \<Rightarrow>
               if c = CHR ''.''
               then (case digitpart r' of
                       Some (fp, r'') \<Rightarrow> Some (ip, fp, r'')
                     | None \<Rightarrow> Some (ip, [], r'))
               else Some (ip, [], r))
      | None \<Rightarrow>
          (case s of
             [] \<Rightarrow> None
           | c # r' \<Rightarrow>
               if c = CHR ''.''
               then (case digitpart r' of
                       Some (fp, r'') \<Rightarrow> Some ([], fp, r'')
                     | None \<Rightarrow> None)
               else None))"

definition sign :: "string \<Rightarrow> bool \<times> string" where
  \<comment> \<open>an optional \<open>+\<close> or \<open>-\<close>: whether the sign is negative, and the rest.\<close>
  "sign s =
     (case s of
        [] \<Rightarrow> (False, [])
      | c # cs \<Rightarrow> if c = CHR ''-'' then (True, cs)
                 else if c = CHR ''+'' then (False, cs)
                 else (False, s))"

definition digits_value :: "nat list \<Rightarrow> nat" where
  "digits_value ds = foldl (\<lambda>acc d. 10 * acc + d) 0 ds"

definition exponent :: "string \<Rightarrow> int option" where
  \<comment> \<open>nothing, or \<open>("e" | "E") [sign] digitpart\<close> up to the end of the text.\<close>
  "exponent s =
     (case s of
        [] \<Rightarrow> Some 0
      | c # cs \<Rightarrow>
          if c = CHR ''e'' \<or> c = CHR ''E''
          then (case sign cs of
                  (neg, r) \<Rightarrow>
                    (case digitpart r of
                       Some (ds, []) \<Rightarrow>
                         Some (if neg then - int (digits_value ds) else int (digits_value ds))
                     | _ \<Rightarrow> None))
          else None)"

definition scale10 :: "rat \<Rightarrow> int \<Rightarrow> rat" where
  "scale10 r e = (if 0 \<le> e then r * 10 ^ nat e else r / 10 ^ nat (- e))"

definition py_float :: "string \<Rightarrow> error + pyfloat" where
  "py_float s =
     (case sign (strip s) of
        (neg, u) \<Rightarrow>
          if map lower_char u = ''inf'' \<or> map lower_char u = ''infinity''
          then Inr (if neg then NegInf else PosInf)
          else if map lower_char u = ''nan'' then Inr NaN
          else (case number u of
                  None \<Rightarrow> Inl (ValueError ''could not convert string to float'')
                | Some (ip, fp, r) \<Rightarrow>
                    (case exponent r of
                       None \<Rightarrow> Inl (ValueError ''could not convert string to float'')
                     | Some e \<Rightarrow>
                         (let m = scale10 (of_nat (digits_value (ip @ fp)))
                                    (e - int (length fp))
                          in Inr (Finite (if neg then - m else m))))))"

section \<open>Version detection\<close>

definition readline :: "string \<Rightarrow> string" where
  \<comment> \<open>the first line of a text with its newline; empty at end of file.\<close>
  "readline text =
     (case dropWhile (\<lambda>c. c \<noteq> CHR 0x0A) text of
        [] \<Rightarrow> text
      | _ # _ \<Rightarrow> takeWhile (\<lambda>c. c \<noteq> CHR 0x0A) text @ [CHR 0x0A])"

definition fileformat_message :: string where
  "fileformat_message =
     ''Invalid VCF.  ##fileformat line in meta is improperly formatted. '' @
     ''Check VCF file specifications: https://samtools.github.io/hts-specs/''"

text \<open>
  \<open>_get_vcf_version\<close> (lines 125-137) on the decoded text of the file.
\<close>

definition get_vcf_version :: "string \<Rightarrow> error + pyfloat" where
  "get_vcf_version text =
     (let line = readline text;
          tokens = split_on CHR ''='' line
      in case tokens of
           [] \<Rightarrow> Inl IndexError
         | t0 # ts \<Rightarrow>
             if \<not> startswith t0 ''##fileformat'' then Inl (ValueError fileformat_message)
             else (case ts of
                     [] \<Rightarrow> Inl IndexError
                   | t1 # _ \<Rightarrow> py_float (rstrip (last_chars 4 t1))))"

section \<open>Parsing and per-contig aggregation\<close>

text \<open>
  What the loop of \<open>_parse_vcf_data\<close> reads of a PyVCF record: \<open>FILTER\<close> is \<open>None\<close>
  for a missing value, the empty list for \<open>PASS\<close> and the list of filter names
  otherwise.
\<close>

record vcf_record =
  CHROM :: string
  FILTER :: "string list option"
  affected_start :: int
  affected_end :: int

record contig_info =
  contig_id :: string
  totalvariants :: int
  passvariants :: int
  length_field :: int

type_synonym contig_dict = "(string \<times> contig_info) list"

definition filter_empty :: "vcf_record \<Rightarrow> bool" where
  \<comment> \<open>\<open>not record.FILTER\<close>\<close>
  "filter_empty r = (FILTER r = None \<or> FILTER r = Some [])"

definition bump_total :: "string \<Rightarrow> contig_dict \<Rightarrow> contig_dict" where
  \<comment> \<open>\<open>contigs[k]['totalvariants'] += 1\<close>\<close>
  "bump_total k contigs =
     AList.map_entry k (\<lambda>ci. ci\<lparr>totalvariants := totalvariants ci + 1\<rparr>) contigs"

definition bump_pass :: "string \<Rightarrow> contig_dict \<Rightarrow> contig_dict" where
  \<comment> \<open>\<open>contigs[k]['passvariants'] += 1\<close>\<close>
  "bump_pass k contigs =
     AList.map_entry k (\<lambda>ci. ci\<lparr>passvariants := passvariants ci + 1\<rparr>) contigs"

text \<open>
  The body of the loop (lines 67-83) on the triple \<open>(totalvars, chromosomes, contigs)\<close>.
  The dictionary keeps insertion order, so it is an association list with distinct keys.
\<close>

definition parse_record ::
  "vcf_record \<Rightarrow> int \<times> string list \<times> contig_dict \<Rightarrow> int \<times> string list \<times> contig_dict" where
  "parse_record r st =
     (case st of
        (totalvars, chromosomes, contigs) \<Rightarrow>
          (totalvars + 1,
           (if CHROM r \<notin> set chromosomes then chromosomes @ [CHROM r] else chromosomes),
           (if CHROM r \<notin> fst ` set contigs
            then AList.update (CHROM r)
                   \<lparr>contig_id = CHROM r,
                    totalvariants = 1,
                    passvariants = (if filter_empty r then 1 else 0),
                    length_field = affected_end r - affected_start r\<rparr> contigs
            else (if filter_empty r
                  then bump_pass (CHROM r) (bump_total (CHROM r) contigs)
                  else bump_total (CHROM r) contigs))))"

fun parse_loop ::
  "vcf_record list \<Rightarrow> int \<times> string list \<times> contig_dict \<Rightarrow> int \<times> string list \<times> contig_dict" where
  "parse_loop [] st = st"
| "parse_loop (r # rs) st = parse_loop rs (parse_record r st)"

definition aggregate :: "vcf_record list \<Rightarrow> int \<times> string list \<times> contig_dict" where
  \<comment> \<open>lines 62-83: the loop from \<open>chromosomes = []\<close>, \<open>contigs = {}\<close>, \<open>totalvars = 0\<close>.\<close>
  "aggregate rs = parse_loop rs (0, [], [])"

definition sum_totalvariants :: "contig_dict \<Rightarrow> int" where
  "sum_totalvariants contigs = sum_list (map (\<lambda>(k, ci). totalvariants ci) contigs)"

definition contigs_of :: "int \<times> string list \<times> contig_dict \<Rightarrow> contig_dict" where
  "contigs_of st = snd (snd st)"

text \<open>
  The values the variable \<open>contigs\<close> takes while one record is processed (after line
  74, or after line 81 and after line 83), and over the whole loop.
\<close>

definition record_points :: "vcf_record \<Rightarrow> contig_dict \<Rightarrow> contig_dict list" where
  "record_points r contigs =
     (if CHROM r \<notin> fst ` set contigs
      then [AList.update (CHROM r)
              \<lparr>contig_id = CHROM r,
               totalvariants = 1,
               passvariants = (if filter_empty r then 1 else 0),
               length_field = affected_end r - affected_start r\<rparr> contigs]
      else (if filter_empty r
            then [bump_total (CHROM r) contigs,
                  bump_pass (CHROM r) (bump_total (CHROM r) contigs)]
            else [bump_total (CHROM r) contigs]))"

fun loop_points ::
  "vcf_record list \<Rightarrow> int \<times> string list \<times> contig_dict \<Rightarrow> contig_dict list" where
  "loop_points [] st = []"
| "loop_points (r # rs) st =
     record_points r (contigs_of st) @ loop_points rs (parse_record r st)"

definition contig_points :: "vcf_record list \<Rightarrow> contig_dict list" where
  "contig_points rs = [] # loop_points rs (0, [], [])"

definition count_contig :: "string \<Rightarrow> vcf_record list \<Rightarrow> int" where
  "count_contig k rs = int (length (filter (\<lambda>r. CHROM r = k) rs))"

definition count_pass :: "string \<Rightarrow> vcf_record list \<Rightarrow> int" where
  "count_pass k rs = int (length (filter (\<lambda>r. CHROM r = k \<and> filter_empty r) rs))"

section \<open>The environment and the trace of a run\<close>

type_synonym params = "string \<rightharpoonup> string"

record reader =
  metadata_fileformat :: "string option"
  samples :: "string list"
  records :: "vcf_record list"

record vcf_info =
  version :: pyfloat
  contigs :: contig_dict
  total_variants :: int
  genotype_ids :: "string list"
  chromosome_ids :: "string list"
  file_ref :: string
  assembly_ref :: "string option"

record shock_handle =
  hid :: string
  remote_md5 :: string

record shock_ref =
  shock_id :: "string option"
  handle :: shock_handle

record variation =
  numgenotypes :: int
  numvariants :: int
  var_contigs :: "contig_info list"
  population :: string
  genome_ref :: string
  assemby_ref :: string
  vcf_handle_ref :: string
  vcf_handle :: shock_handle

text \<open>
  The file system, the validator processes, PyVCF and the KBase services are outside
  the program. What they answer is a field of \<open>world\<close>; what the program asks of them
  is recorded as an \<open>event\<close>. \<open>_stage_input\<close> (lines 254-289) only moves files: its
  outcome, the path it returns together with the value it leaves in
  \<open>self.original_file\<close>, is a field too. Creating the scratch directory, starting the
  process and writing the report are taken to succeed. Of the console output only the
  warnings of the two identifier checks are recorded.
\<close>

record world =
  scratch :: string
  stage_input_result :: "params \<Rightarrow> error + string \<times> string"
  file_text :: "string \<Rightarrow> string"
  validation_uuid :: string
  variation_uuid :: string
  validator_lines :: "string list \<Rightarrow> string list"
  path_exists :: "string \<Rightarrow> bool"
  vcf_reader :: "string \<Rightarrow> reader"
  genome_assembly_ref :: "string \<Rightarrow> error + string"
  assembly_contig_ids :: "string \<Rightarrow> error + string list"
  sample_instance_ids :: "string \<Rightarrow> error + string list"
  file_to_shock :: "string \<Rightarrow> error + shock_ref"
  md5_sum_local_file :: "string \<Rightarrow> string"
  ws_name_to_id :: "string \<Rightarrow> error + int"
  save_objects :: "int \<Rightarrow> string \<Rightarrow> variation \<Rightarrow> error + string"

datatype event =
    StageInput
  | Mkdir string
  | Popen "string list"
  | WriteFile string string
  | Print string
  | CopyFile string string
  | GzipFile string
  | GetObjectSubset string string
  | FileToShock string
  | SaveObjects int string variation

type_synonym 'a io = "event list \<times> (error + 'a)"

definition ret :: "'a \<Rightarrow> 'a io" where
  "ret x = ([], Inr x)"

definition raise :: "error \<Rightarrow> 'a io" where
  "raise e = ([], Inl e)"

definition lift :: "error + 'a \<Rightarrow> 'a io" where
  "lift r = ([], r)"

definition emit :: "event \<Rightarrow> unit io" where
  "emit ev = ([ev], Inr ())"

definition io_bind :: "'a io \<Rightarrow> ('a \<Rightarrow> 'b io) \<Rightarrow> 'b io" where
  "io_bind m f =
     (case m of
        (tr, Inl e) \<Rightarrow> (tr, Inl e)
      | (tr, Inr x) \<Rightarrow> (case f x of (tr', r) \<Rightarrow> (tr @ tr', r)))"

definition trace :: "'a io \<Rightarrow> event list" where
  "trace m = fst m"

definition outcome :: "'a io \<Rightarrow> error + 'a" where
  "outcome m = snd m"

definition path_join :: "string \<Rightarrow> string \<Rightarrow> string" where
  \<comment> \<open>\<open>os.path.join(a, b)\<close>\<close>
  "path_join a b =
     (if startswith b ''/'' then b
      else if a = [] \<or> last a = CHR ''/'' then a @ b
      else a @ ''/'' @ b)"

definition basename :: "string \<Rightarrow> string" where
  \<comment> \<open>\<open>os.path.basename(p)\<close>\<close>
  "basename p = rev (takeWhile (\<lambda>c. c \<noteq> CHR ''/'') (rev p))"

definition endswith :: "string \<Rightarrow> string \<Rightarrow> bool" where
  "endswith s suffix = startswith (rev s) (rev suffix)"

fun index :: "'a list \<Rightarrow> nat \<Rightarrow> 'a option" where
  \<comment> \<open>\<open>xs[i]\<close> for \<open>i \<ge> 0\<close>; \<open>None\<close> where Python raises IndexError.\<close>
  "index [] i = None"
| "index (x # xs) 0 = Some x"
| "index (x # xs) (Suc i) = index xs i"

definition stage_input :: "world \<Rightarrow> params \<Rightarrow> (string \<times> string) io" where
  "stage_input w params = io_bind (emit StageInput) (\<lambda>_. lift (stage_input_result w params))"

section \<open>Validation\<close>

definition concat_str_dict :: "string \<Rightarrow> params \<Rightarrow> error + string" where
  \<comment> \<open>\<open>'...' + params\<close> with \<open>params\<close> a dict: \<open>str.__add__\<close> takes only a \<open>str\<close>, and a
      dict has no \<open>__radd__\<close>.\<close>
  "concat_str_dict s d =
     Inl (TypeError (''can only concatenate str (not '' @ [CHR 0x22] @ ''dict'' @
                     [CHR 0x22] @ '') to str''))"

definition version_message :: string where
  "version_message =
     ''VCF Version not in file, or fileformat line malformatted, or not version >=4.0. '' @
     ''file format line must be the first line of vcf file and in appropriate syntax. '' @
     ''Check VCF file specifications: https://samtools.github.io/hts-specs/''"

definition select_validator :: "pyfloat \<Rightarrow> string \<Rightarrow> error + string list" where
  \<comment> \<open>lines 162-178\<close>
  "select_validator vcf_version vcf_filepath =
     (if float_ge vcf_version (Finite (41 / 10))
      then Inr [''vcf_validator_linux'', ''-i'', vcf_filepath, ''-l'', ''error'']
      else if float_ge vcf_version (Finite 4)
      then Inr [''vcf-validator'', vcf_filepath]
      else Inl (ValueError version_message))"

definition retain_info :: "string list \<Rightarrow> string list" where
  \<comment> \<open>lines 188-194: the lines kept of the process's output.\<close>
  "retain_info lines = filter (\<lambda>line. startswith (strip line) ''[info]'') lines"

definition success_text :: "string \<Rightarrow> string" where
  "success_text vcf_filepath =
     ''vcftools used to validate vcf file:'' @ [CHR 0x0A] @ vcf_filepath @
     [CHR 0x0A, CHR 0x5C] @ ''File is validate as of vcf spec v4.0''"

definition write_report :: "string \<Rightarrow> string \<Rightarrow> string list \<Rightarrow> unit io" where
  \<comment> \<open>lines 217-227 and, the same statements, lines 232-242.\<close>
  "write_report vcf_filepath validation_output_filename validator_output =
     (if validator_output \<noteq> []
      then io_bind (emit (WriteFile validation_output_filename (concat validator_output)))
             (\<lambda>_. raise (ValueError (join [CHR 0x0A] validator_output)))
      else emit (WriteFile validation_output_filename (success_text vcf_filepath)))"

text \<open>
  The body of the \<open>try\<close> (lines 202-227): the value of \<open>validation_output_filename\<close>
  when the body ends or raises, and what the body did.
\<close>

definition try_block :: "world \<Rightarrow> string \<Rightarrow> string \<Rightarrow> string list \<Rightarrow> string \<times> unit io" where
  "try_block w vcf_filepath validation_output_filename validator_output =
     (case validator_output of
        [] \<Rightarrow> (validation_output_filename, raise IndexError)
      | l0 # _ \<Rightarrow>
          if take 6 l0 = ''[info]''
          then (case index validator_output 1 of
                  None \<Rightarrow> (validation_output_filename, raise IndexError)
                | Some l1 \<Rightarrow>
                    (case index (split_on CHR '' '' l1) 6 of
                       None \<Rightarrow> (validation_output_filename, raise IndexError)
                     | Some t \<Rightarrow>
                         (let fname = strip_char (CHR 0x0A) t
                          in case index validator_output 2 of
                               None \<Rightarrow> (fname, raise IndexError)
                             | Some l2 \<Rightarrow>
                                 (let vo = split_on CHR '' '' l2;
                                      file_output_chk = strip_char (CHR 0x0A) (concat (drop 9 vo))
                                  in (fname,
                                      if \<not> path_exists w fname
                                      then raise (ValueError (fname @ '' does not exist!''))
                                      else if file_output_chk \<noteq> ''isvalid''
                                      then raise (ValueError (join [CHR 0x0A] validator_output))
                                      else ret ())))))
          else (validation_output_filename,
                write_report vcf_filepath validation_output_filename validator_output))"

definition written :: "event list \<Rightarrow> string list" where
  "written tr = concat (map (\<lambda>ev. case ev of WriteFile p c \<Rightarrow> [p] | _ \<Rightarrow> []) tr)"

definition interpret_output :: "world \<Rightarrow> string \<Rightarrow> string \<Rightarrow> string list \<Rightarrow> string io" where
  \<comment> \<open>lines 198-252: the \<open>try\<close>, its \<open>except IndexError\<close> and the check that the report
      exists.\<close>
  "interpret_output w vcf_filepath validation_output_filename validator_output =
     (case try_block w vcf_filepath validation_output_filename validator_output of
        (fname, body) \<Rightarrow>
          (case (case body of
                   (tr, Inl IndexError) \<Rightarrow>
                     io_bind (tr, Inr ()) (\<lambda>_. write_report vcf_filepath fname validator_output)
                 | _ \<Rightarrow> body) of
             (tr, Inl e) \<Rightarrow> (tr, Inl e)
           | (tr, Inr _) \<Rightarrow>
               if fname \<in> set (written tr) \<or> path_exists w fname
               then (tr, Inr fname)
               else (tr, Inl (SystemError ''Validator did not generate a log file.''))))"

definition validate_vcf :: "world \<Rightarrow> params \<Rightarrow> string io" where
  "validate_vcf w params =
     (if params ''genome_ref'' = None
      then io_bind
             (lift (concat_str_dict
                      (''Genome reference not in input parameters: '' @ [CHR 0x0A, CHR 0x0A])
                      params))
             (\<lambda>msg. raise (ValueError msg))
      else if params ''vcf_staging_file_path'' = None
      then io_bind
             (lift (concat_str_dict
                      (''VCF staging file path not in input parameters: '' @
                       [CHR 0x0A, CHR 0x0A])
                      params))
             (\<lambda>msg. raise (ValueError msg))
      else
        io_bind (stage_input w params) (\<lambda>staged.
        io_bind (lift (get_vcf_version (file_text w (fst staged)))) (\<lambda>vcf_version.
        let validation_output_dir = path_join (scratch w) (''validation_'' @ validation_uuid w)
        in
        io_bind (emit (Mkdir validation_output_dir)) (\<lambda>_.
        io_bind (lift (select_validator vcf_version (fst staged))) (\<lambda>validator_cmd.
        io_bind (emit (Popen validator_cmd)) (\<lambda>_.
        interpret_output w (fst staged)
          (path_join validation_output_dir ''vcf_validation.txt'')
          (retain_info (validator_lines w validator_cmd))))))))"

section \<open>Cross-validation of identifiers\<close>

text \<open>
  Both checks return \<open>True\<close> when nothing is missing and the list of missing
  identifiers otherwise.
\<close>

datatype chk_result = AllFound | NotFound "string list"

fun not_found :: "chk_result \<Rightarrow> string list" where
  "not_found AllFound = []"
| "not_found (NotFound xs) = xs"

text \<open>
  \<open>_validate_vcf_to_sample\<close> (lines 96-109): both lists are upper-cased and stripped,
  then every normalised genotype that is not among the normalised sample ids is
  collected in order.
\<close>

definition validate_vcf_to_sample :: "string list \<Rightarrow> string list \<Rightarrow> chk_result" where
  "validate_vcf_to_sample vcf_genotypes sample_ids =
     (let vgenotypes = map (\<lambda>x. strip (upper x)) vcf_genotypes;
          sids = map (\<lambda>x. strip (upper x)) sample_ids;
          genos_not_found = filter (\<lambda>geno. geno \<notin> set sids) vgenotypes
      in if genos_not_found = [] then AllFound else NotFound genos_not_found)"

text \<open>
  \<open>_chk_if_vcf_ids_in_assembly\<close> (lines 111-123): the chromosome ids are looked up
  in the assembly's contig keys as they are.
\<close>

definition chk_if_vcf_ids_in_assembly :: "string list \<Rightarrow> string list \<Rightarrow> chk_result" where
  "chk_if_vcf_ids_in_assembly vcf_chromosomes assembly_chromosomes =
     (let chromos_not_in_assembly =
            filter (\<lambda>chromo. chromo \<notin> set assembly_chromosomes) vcf_chromosomes
      in if chromos_not_in_assembly = [] then AllFound else NotFound chromos_not_in_assembly)"

section \<open>The pipeline\<close>

text \<open>
  \<open>_parse_vcf_data\<close> (lines 54-94). PyVCF gives the value of the \<open>##fileformat\<close> meta
  line (\<open>VCFv4.2\<close> for a first line \<open>##fileformat=VCFv4.2\<close>), the sample names and the
  records. The result is paired with the value \<open>_stage_input\<close> left in
  \<open>self.original_file\<close>.
\<close>

definition parse_vcf_data :: "world \<Rightarrow> params \<Rightarrow> (vcf_info \<times> string) io" where
  "parse_vcf_data w params =
     io_bind (stage_input w params) (\<lambda>staged.
       let rd = vcf_reader w (fst staged)
       in case metadata_fileformat rd of
            None \<Rightarrow> raise (KeyError ''fileformat'')
          | Some fileformat \<Rightarrow>
              io_bind (lift (py_float (slice 4 6 fileformat))) (\<lambda>v.
                case aggregate (records rd) of
                  (totalvars, chromosomes, cs) \<Rightarrow>
                    ret (\<lparr>version = v,
                          contigs = cs,
                          total_variants = totalvars,
                          genotype_ids = samples rd,
                          chromosome_ids = chromosomes,
                          file_ref = fst staged,
                          assembly_ref = None\<rparr>,
                         snd staged)))"

definition lookup :: "params \<Rightarrow> string \<Rightarrow> string io" where
  \<comment> \<open>\<open>params[key]\<close>\<close>
  "lookup params key = (case params key of None \<Rightarrow> raise (KeyError key) | Some v \<Rightarrow> ret v)"

text \<open>
  \<open>_validate_assembly_ids\<close> (lines 291-318) returns the assembly's contig ids and
  leaves the assembly reference in \<open>self.vcf_info\<close>.
\<close>

definition validate_assembly_ids ::
  "world \<Rightarrow> vcf_info \<Rightarrow> params \<Rightarrow> (string list \<times> vcf_info) io" where
  "validate_assembly_ids w info params =
     io_bind (lookup params ''genome_ref'') (\<lambda>gref.
     io_bind (emit (GetObjectSubset ''/assembly_ref'' gref)) (\<lambda>_.
     io_bind (lift (genome_assembly_ref w gref)) (\<lambda>aref.
     io_bind (emit (GetObjectSubset ''/contigs'' aref)) (\<lambda>_.
     io_bind (lift (assembly_contig_ids w aref)) (\<lambda>assembly_chromosomes.
     io_bind
       (case chk_if_vcf_ids_in_assembly (chromosome_ids info) assembly_chromosomes of
          NotFound chk_assembly_ids \<Rightarrow>
            emit (Print (''VCF contig ids: '' @ join '' '' chk_assembly_ids @
                         '' are not present in assembly.''))
        | AllFound \<Rightarrow> ret ())
       (\<lambda>_. ret (assembly_chromosomes, info\<lparr>assembly_ref := Some aref\<rparr>)))))))"

text \<open>\<open>_validate_sample_ids\<close> (lines 320-338).\<close>

definition validate_sample_ids :: "world \<Rightarrow> vcf_info \<Rightarrow> params \<Rightarrow> string list io" where
  "validate_sample_ids w info params =
     io_bind (lookup params ''sample_attribute_ref'') (\<lambda>sref.
     io_bind (emit (GetObjectSubset ''/instances'' sref)) (\<lambda>_.
     io_bind (lift (sample_instance_ids w sref)) (\<lambda>sample_ids.
     io_bind
       (case validate_vcf_to_sample (genotype_ids info) sample_ids of
          NotFound validate_genotypes \<Rightarrow>
            emit (Print (''VCF genotypes: '' @ join '' '' validate_genotypes @
                         '' are not present in sample attribute mapping.''))
        | AllFound \<Rightarrow> ret ())
       (\<lambda>_. ret sample_ids))))"

definition construct_contig_info :: "vcf_info \<Rightarrow> contig_info list" where
  \<comment> \<open>lines 359-366\<close>
  "construct_contig_info info = map snd (contigs info)"

definition falsy :: "string option \<Rightarrow> bool" where
  \<comment> \<open>\<open>not x\<close> for a value that is \<open>None\<close> or a string.\<close>
  "falsy x = (x = None \<or> x = Some [])"

text \<open>\<open>_construct_variation\<close> (lines 398-431).\<close>

definition construct_variation ::
  "world \<Rightarrow> vcf_info \<Rightarrow> string \<Rightarrow> params \<Rightarrow> contig_info list \<Rightarrow> variation io" where
  "construct_variation w info original_file params contigs_info =
     io_bind
       (if \<not> startswith (file_ref info) (scratch w)
        then (let new_vcf_file = path_join (scratch w) (basename (file_ref info))
              in io_bind (emit (CopyFile (file_ref info) new_vcf_file)) (\<lambda>_. ret new_vcf_file))
        else ret (file_ref info)) (\<lambda>file_ref1.
     io_bind
       (if \<not> endswith file_ref1 ''.gz''
        then io_bind (emit (GzipFile file_ref1)) (\<lambda>_. ret (file_ref1 @ ''.gz''))
        else ret file_ref1) (\<lambda>file_ref2.
     io_bind (emit (FileToShock original_file)) (\<lambda>_.
     io_bind (lift (file_to_shock w original_file)) (\<lambda>vcf_shock_file_ref.
       let local_md5 = md5_sum_local_file w original_file;
           shock_md5 = remote_md5 (handle vcf_shock_file_ref)
       in if local_md5 \<noteq> shock_md5
          then raise (ValueError (''Local md5 '' @ local_md5 @
                                  '' does not match shock md5 '' @ shock_md5))
          else if falsy (shock_id vcf_shock_file_ref)
          then raise (ValueError ''Unable to upload VCF to Shock!'')
          else
            io_bind (lookup params ''sample_attribute_ref'') (\<lambda>pop.
            io_bind (lookup params ''genome_ref'') (\<lambda>gref.
            io_bind (case assembly_ref info of
                       None \<Rightarrow> raise (KeyError ''assembly_ref'')
                     | Some a \<Rightarrow> ret a) (\<lambda>aref.
            ret \<lparr>numgenotypes = int (length (genotype_ids info)),
                 numvariants = total_variants info,
                 var_contigs = contigs_info,
                 population = pop,
                 genome_ref = gref,
                 assemby_ref = aref,
                 vcf_handle_ref = hid (handle vcf_shock_file_ref),
                 vcf_handle = handle vcf_shock_file_ref\<rparr>)))))))"

text \<open>
  \<open>_save_var_obj\<close> (lines 452-471); \<open>None\<close> stands for a blank object, which
  \<open>if var\<close> refuses.
\<close>

definition save_var_obj :: "world \<Rightarrow> params \<Rightarrow> variation option \<Rightarrow> string io" where
  "save_var_obj w params var =
     (case var of
        None \<Rightarrow> raise (ValueError ''Variation object blank, cannot not save to workspace!'')
      | Some v \<Rightarrow>
          (let var_obj_name =
                 (case params ''variation_object_name'' of
                    None \<Rightarrow> ''variation_'' @ variation_uuid w
                  | Some n \<Rightarrow> n)
           in io_bind (lookup params ''workspace_name'') (\<lambda>ws_name.
              io_bind (lift (ws_name_to_id w ws_name)) (\<lambda>ws_id.
              io_bind (emit (SaveObjects ws_id var_obj_name v)) (\<lambda>_.
              lift (save_objects w ws_id var_obj_name v))))))"

text \<open>\<open>import_vcf\<close> (lines 473-493).\<close>

definition import_vcf :: "world \<Rightarrow> params \<Rightarrow> (string \<times> variation) io" where
  "import_vcf w params =
     io_bind (validate_vcf w params) (\<lambda>file_valid_result.
     io_bind (parse_vcf_data w params) (\<lambda>parsed.
     io_bind (validate_assembly_ids w (fst parsed) params) (\<lambda>checked.
     io_bind (validate_sample_ids w (snd checked) params) (\<lambda>_.
     let contigs_info = construct_contig_info (snd checked)
     in
     io_bind (construct_variation w (snd checked) (snd parsed) params contigs_info) (\<lambda>var.
     io_bind (save_var_obj w params (Some var)) (\<lambda>var_wksp_obj.
     ret (var_wksp_obj, var)))))))"

definition is_save :: "event \<Rightarrow> bool" where
  "is_save ev = (case ev of SaveObjects i n v \<Rightarrow> True | _ \<Rightarrow> False)"

definition is_popen :: "event \<Rightarrow> bool" where
  "is_popen ev = (case ev of Popen cmd \<Rightarrow> True | _ \<Rightarrow> False)"

section \<open>A sample run\<close>

text \<open>
  Five records on the contigs \<open>1\<close> and \<open>2\<close>, a file of version 4.0 that the validator
  accepts in silence, an assembly without contig \<open>2\<close>, and a sample set that knows
  \<open>Sample_X\<close> in lower case only.
\<close>

definition demo_records :: "vcf_record list" where
  "demo_records =
     [\<lparr>CHROM = ''1'', FILTER = None, affected_start = 10, affected_end = 11\<rparr>,
      \<lparr>CHROM = ''2'', FILTER = Some [], affected_start = 5, affected_end = 8\<rparr>,
      \<lparr>CHROM = ''1'', FILTER = Some [''q10''], affected_start = 20, affected_end = 21\<rparr>,
      \<lparr>CHROM = ''2'', FILTER = Some [], affected_start = 30, affected_end = 31\<rparr>,
      \<lparr>CHROM = ''2'', FILTER = Some [''s50''], affected_start = 40, affected_end = 41\<rparr>]"

definition demo_params :: params where
  "demo_params =
     [''genome_ref'' \<mapsto> ''1/2/3'',
      ''vcf_staging_file_path'' \<mapsto> ''sample.vcf'',
      ''sample_attribute_ref'' \<mapsto> ''1/4/1'',
      ''workspace_name'' \<mapsto> ''ws'']"

definition demo_world :: world where
  "demo_world =
     \<lparr>scratch = ''/kb/module/work/tmp'',
      stage_input_result =
        (\<lambda>_. Inr (''/staging/sample.vcf'', ''/kb/module/work/tmp/original_sample.vcf'')),
      file_text = (\<lambda>_. ''##fileformat=VCFv4.0'' @ [CHR 0x0A]),
      validation_uuid = ''u1'',
      variation_uuid = ''u2'',
      validator_lines = (\<lambda>_. []),
      path_exists = (\<lambda>_. False),
      vcf_reader =
        (\<lambda>_. \<lparr>metadata_fileformat = Some ''VCFv4.0'',
               samples = [''Sample_X'', ''s2''],
               records = demo_records\<rparr>),
      genome_assembly_ref = (\<lambda>_. Inr ''1/5/1''),
      assembly_contig_ids = (\<lambda>_. Inr [''1'', ''3'']),
      sample_instance_ids = (\<lambda>_. Inr [''sample_x'']),
      file_to_shock =
        (\<lambda>_. Inr \<lparr>shock_id = Some ''sid'',
                    handle = \<lparr>hid = ''KBH_1'', remote_md5 = ''abc''\<rparr>\<rparr>),
      md5_sum_local_file = (\<lambda>_. ''abc''),
      ws_name_to_id = (\<lambda>_. Inr 7),
      save_objects = (\<lambda>_ _ _. Inr ''saved'')\<rparr>"

definition demo_info :: vcf_info where
  "demo_info =
     \<lparr>version = Finite 4,
      contigs =
        [(''1'', \<lparr>contig_id = ''1'', totalvariants = 2, passvariants = 1, length_field = 1\<rparr>),
         (''2'', \<lparr>contig_id = ''2'', totalvariants = 3, passvariants = 2, length_field = 3\<rparr>)],
      total_variants = 5,
      genotype_ids = [''Sample_X'', ''s2''],
      chromosome_ids = [''1'', ''2''],
      file_ref = ''/staging/sample.vcf'',
      assembly_ref = None\<rparr>"

definition pass_le_total :: "contig_dict \<Rightarrow> bool" where
  "pass_le_total cs = (\<forall>(k, ci) \<in> set cs. passvariants ci \<le> totalvariants ci)"

definition counts_inv :: "vcf_record list \<Rightarrow> contig_dict \<Rightarrow> bool" where
  "counts_inv rs cs =
     (distinct (map fst cs) \<and> fst ` set cs = CHROM ` set rs \<and>
      (\<forall>k ci. map_of cs k = Some ci \<longrightarrow>
         totalvariants ci = count_contig k rs \<and> passvariants ci = count_pass k rs))"

definition normalise :: "string \<Rightarrow> string" where
  \<comment> \<open>\<open>x.upper().strip()\<close>\<close>
  "normalise x = strip (upper x)"

definition demo_world_42 :: world where
  "demo_world_42 =
     demo_world
       \<lparr>file_text := (\<lambda>_. ''##fileformat=VCFv4.2'' @ [CHR 0x0A]),
        vcf_reader :=
          (\<lambda>_. \<lparr>metadata_fileformat = Some ''VCFv4.2'',
                 samples = [''Sample_X'', ''s2''],
                 records = demo_records\<rparr>)\<rparr>"

definition demo_diagnostic :: string where
  "demo_diagnostic = ''Could not parse the line, wrong number of columns'' @ [CHR 0x0A]"

section \<open>Aggregation: sums and counts\<close>

lemma parse_loop_snoc: "parse_loop (rs @ [r]) st = parse_record r (parse_loop rs st)"
  by (induction rs arbitrary: st) simp_all

lemma sum_update_fresh:
  "k \<notin> fst ` set cs \<Longrightarrow>
   sum_totalvariants (AList.update k v cs) = sum_totalvariants cs + totalvariants v"
  by (induction cs) (auto simp: sum_totalvariants_def)

lemma sum_bump_total:
  "distinct (map fst cs) \<Longrightarrow> k \<in> fst ` set cs \<Longrightarrow>
   sum_totalvariants (bump_total k cs) = sum_totalvariants cs + 1"
  by (induction cs) (auto simp: sum_totalvariants_def bump_total_def)

lemma sum_bump_pass: "sum_totalvariants (bump_pass k cs) = sum_totalvariants cs"
  by (induction cs) (auto simp: sum_totalvariants_def bump_pass_def)

lemma keys_bump_total: "map fst (bump_total k cs) = map fst cs"
  by (induction cs) (auto simp: bump_total_def)

lemma keys_bump_pass: "map fst (bump_pass k cs) = map fst cs"
  by (induction cs) (auto simp: bump_pass_def)

lemma set_keys_bump_total: "fst ` set (bump_total k cs) = fst ` set cs"
  using keys_bump_total [of k cs] by (metis set_map)

lemma set_keys_bump_pass: "fst ` set (bump_pass k cs) = fst ` set cs"
  using keys_bump_pass [of k cs] by (metis set_map)

lemma sum_step:
  assumes "distinct (map fst cs)" and "sum_totalvariants cs = tv"
    and "parse_record r (tv, chs, cs) = (tv', chs', cs')"
  shows "distinct (map fst cs') \<and> sum_totalvariants cs' = tv'"
  using assms
  by (auto simp: parse_record_def sum_update_fresh sum_bump_total sum_bump_pass
      keys_bump_total keys_bump_pass distinct_update simp del: AList.update.simps)

lemma sum_loop:
  "distinct (map fst cs) \<Longrightarrow> sum_totalvariants cs = tv \<Longrightarrow>
   parse_loop rs (tv, chs, cs) = (tv', chs', cs') \<Longrightarrow>
   distinct (map fst cs') \<and> sum_totalvariants cs' = tv'"
proof (induction rs arbitrary: tv chs cs)
  case Nil
  then show ?case by simp
next
  case (Cons r rs)
  obtain tv1 chs1 cs1 where step: "parse_record r (tv, chs, cs) = (tv1, chs1, cs1)"
    by (cases "parse_record r (tv, chs, cs)") auto
  have "distinct (map fst cs1) \<and> sum_totalvariants cs1 = tv1"
    using Cons.prems(1,2) step by (rule sum_step)
  moreover have "parse_loop rs (tv1, chs1, cs1) = (tv', chs', cs')"
    using Cons.prems(3) step by simp
  ultimately show ?case using Cons.IH by blast
qed

lemma sum_aggregate:
  "aggregate rs = (tv, chs, cs) \<Longrightarrow> distinct (map fst cs) \<and> sum_totalvariants cs = tv"
  unfolding aggregate_def
  using sum_loop [of "[]" 0 rs "[]" tv chs cs] by (simp add: sum_totalvariants_def)

lemma io_bind_lift_Inr [simp]: "io_bind (lift (Inr x)) f = f x"
  by (cases "f x") (simp add: io_bind_def lift_def)

lemma io_bind_lift_Inl [simp]: "io_bind (lift (Inl e)) f = ([], Inl e)"
  by (simp add: io_bind_def lift_def)

lemma io_bind_lift: "io_bind (lift r) f = (case r of Inl e \<Rightarrow> ([], Inl e) | Inr x \<Rightarrow> f x)"
  by (cases r) simp_all

lemma io_bind_ret [simp]: "io_bind (ret x) f = f x"
  by (cases "f x") (simp add: io_bind_def ret_def)

lemma io_bind_raise [simp]: "io_bind (raise e) f = ([], Inl e)"
  by (simp add: io_bind_def raise_def)

lemma io_bind_emit [simp]: "io_bind (emit ev) f = (ev # fst (f ()), snd (f ()))"
  by (cases "f ()") (simp add: io_bind_def emit_def)

lemma io_bind_Inl [simp]: "io_bind (tr, Inl e) f = (tr, Inl e)"
  by (simp add: io_bind_def)

lemma io_bind_Inr [simp]: "io_bind (tr, Inr x) f = (tr @ fst (f x), snd (f x))"
  by (cases "f x") (simp add: io_bind_def)

lemma outcome_pair [simp]: "outcome (tr, r) = r"
  by (simp add: outcome_def)

lemma trace_pair [simp]: "trace (tr, r) = tr"
  by (simp add: trace_def)

lemma snd_ret [simp]: "snd (ret x) = Inr x" and fst_ret [simp]: "fst (ret x) = []"
  by (simp_all add: ret_def)

lemma snd_raise [simp]: "snd (raise e) = Inl e" and fst_raise [simp]: "fst (raise e) = []"
  by (simp_all add: raise_def)

lemma snd_lift [simp]: "snd (lift r) = r" and fst_lift [simp]: "fst (lift r) = []"
  by (simp_all add: lift_def)

lemma outcome_io_bind:
  "outcome (io_bind m f) = (case outcome m of Inl e \<Rightarrow> Inl e | Inr x \<Rightarrow> outcome (f x))"
  by (cases m; cases "snd m") (auto simp: io_bind_def outcome_def split: prod.splits)

lemma trace_io_bind:
  "trace (io_bind m f) = (case outcome m of Inl e \<Rightarrow> trace m | Inr x \<Rightarrow> trace m @ trace (f x))"
  by (cases m; cases "snd m") (auto simp: io_bind_def outcome_def trace_def split: prod.splits)

lemma parse_vcf_data_result:
  assumes "outcome (parse_vcf_data w params) = Inr (info, orig)"
  shows "\<exists>p rd. stage_input_result w params = Inr (p, orig) \<and> rd = vcf_reader w p \<and>
           aggregate (records rd) = (total_variants info, chromosome_ids info, contigs info) \<and>
           genotype_ids info = samples rd \<and> file_ref info = p \<and> assembly_ref info = None"
proof (cases "stage_input_result w params")
  case (Inl e)
  with assms show ?thesis by (simp add: parse_vcf_data_def stage_input_def outcome_def)
next
  case (Inr staged)
  with assms show ?thesis
    by (cases staged)
      (auto simp: parse_vcf_data_def stage_input_def outcome_def Let_def io_bind_lift
        split: sum.splits option.splits prod.splits)
qed

text \<open>
  C2. When \<open>_parse_vcf_data\<close> returns, the \<open>totalvariants\<close> of the entries of \<open>contigs\<close>
  add up to \<open>total_variants\<close>.
\<close>

theorem sum_totalvariants_eq_total_variants:
  assumes "outcome (parse_vcf_data w params) = Inr (info, orig)"
  shows "sum_totalvariants (contigs info) = total_variants info"
proof -
  obtain rd :: reader
    where "aggregate (records rd) = (total_variants info, chromosome_ids info, contigs info)"
    using parse_vcf_data_result [OF assms] by blast
  then show ?thesis by (simp add: sum_aggregate)
qed

theorem sum_totalvariants_eq_total_variants_witness:
  "outcome (parse_vcf_data demo_world demo_params) =
     Inr (demo_info, ''/kb/module/work/tmp/original_sample.vcf'') \<and>
   sum_totalvariants (contigs demo_info) = 5"
proof -
  have run: "outcome (parse_vcf_data demo_world demo_params) =
     Inr (demo_info, ''/kb/module/work/tmp/original_sample.vcf'')"
    by code_simp
  have "total_variants demo_info = 5" by (simp add: demo_info_def)
  with run sum_totalvariants_eq_total_variants [OF run] show ?thesis by simp
qed


section \<open>Aggregation: pass counts\<close>

lemma pass_le_total_update:
  "pass_le_total cs \<Longrightarrow> passvariants v \<le> totalvariants v \<Longrightarrow> pass_le_total (AList.update k v cs)"
  by (induction cs) (auto simp: pass_le_total_def)

lemma pass_le_total_bump_total:
  "pass_le_total cs \<Longrightarrow> pass_le_total (bump_total k cs)"
  by (induction cs) (auto simp: pass_le_total_def bump_total_def)

lemma pass_le_total_bump_both:
  "pass_le_total cs \<Longrightarrow> pass_le_total (bump_pass k (bump_total k cs))"
  by (induction cs) (auto simp: pass_le_total_def bump_total_def bump_pass_def)

lemma last_record_points:
  "contigs_of (parse_record r st) = last (record_points r (contigs_of st))"
  by (cases st) (simp add: parse_record_def record_points_def contigs_of_def)

lemma pass_le_total_record_points:
  "pass_le_total cs \<Longrightarrow> \<forall>cs' \<in> set (record_points r cs). pass_le_total cs'"
  by (simp add: record_points_def pass_le_total_update pass_le_total_bump_total
      pass_le_total_bump_both del: AList.update.simps)

lemma record_points_nonempty: "record_points r cs \<noteq> []"
  by (simp add: record_points_def)

lemma pass_le_total_step:
  "pass_le_total (contigs_of st) \<Longrightarrow> pass_le_total (contigs_of (parse_record r st))"
  using pass_le_total_record_points [of "contigs_of st" r] record_points_nonempty [of r "contigs_of st"]
  by (simp add: last_record_points)

lemma pass_le_total_loop_points:
  "pass_le_total (contigs_of st) \<Longrightarrow> \<forall>cs \<in> set (loop_points rs st). pass_le_total cs"
proof (induction rs arbitrary: st)
  case Nil
  show ?case by simp
next
  case (Cons r rs)
  have "\<forall>cs \<in> set (record_points r (contigs_of st)). pass_le_total cs"
    using Cons.prems by (rule pass_le_total_record_points)
  moreover have "\<forall>cs \<in> set (loop_points rs (parse_record r st)). pass_le_total cs"
    using Cons.prems by (intro Cons.IH pass_le_total_step)
  ultimately show ?case by auto
qed

lemma pass_le_total_contig_points:
  "\<forall>cs \<in> set (contig_points rs). pass_le_total cs"
  using pass_le_total_loop_points [of "(0, [], [])" rs]
  by (simp add: contig_points_def contigs_of_def pass_le_total_def)

lemma map_of_bump_total:
  "map_of (bump_total k cs) = (map_of cs)(k := map_option (\<lambda>ci. ci\<lparr>totalvariants := totalvariants ci + 1\<rparr>) (map_of cs k))"
  by (auto simp: bump_total_def map_of_map_entry fun_eq_iff split: option.splits)

lemma map_of_bump_pass:
  "map_of (bump_pass k cs) = (map_of cs)(k := map_option (\<lambda>ci. ci\<lparr>passvariants := passvariants ci + 1\<rparr>) (map_of cs k))"
  by (auto simp: bump_pass_def map_of_map_entry fun_eq_iff split: option.splits)

lemma count_fresh: "k \<notin> CHROM ` set rs \<Longrightarrow> count_contig k rs = 0 \<and> count_pass k rs = 0"
  by (auto simp: count_contig_def count_pass_def filter_empty_conv)

lemma counts_inv_step:
  assumes "counts_inv rs (contigs_of st)"
  shows "counts_inv (rs @ [r]) (contigs_of (parse_record r st))"
proof (cases st)
  case (fields tv chs cs)
  have inv: "distinct (map fst cs)" "fst ` set cs = CHROM ` set rs"
    "\<And>k ci. map_of cs k = Some ci \<Longrightarrow> totalvariants ci = count_contig k rs \<and> passvariants ci = count_pass k rs"
    using assms fields by (auto simp: counts_inv_def contigs_of_def simp del: map_of_eq_Some_iff)
  show ?thesis
  proof (cases "CHROM r \<in> fst ` set cs")
    case False
    then have fresh: "count_contig (CHROM r) rs = 0" "count_pass (CHROM r) rs = 0"
      using count_fresh inv(2) by auto
    have "fst ` set (AList.update (CHROM r) v cs) = CHROM ` set (rs @ [r])" for v
      using inv(2) dom_update [of "CHROM r" v cs] by (simp add: dom_map_of_conv_image_fst)
    then show ?thesis
      using False inv fresh unfolding fields
      by (auto simp: counts_inv_def contigs_of_def parse_record_def distinct_update
          update_conv' count_contig_def count_pass_def
          simp del: AList.update.simps map_of_eq_Some_iff)
  next
    case True
    show ?thesis
      using True inv unfolding fields
      by (auto simp: counts_inv_def contigs_of_def parse_record_def keys_bump_total keys_bump_pass
          set_keys_bump_total set_keys_bump_pass
          map_of_bump_total map_of_bump_pass count_contig_def count_pass_def
          simp del: map_of_eq_Some_iff
          split: if_splits)
  qed
qed

lemma counts_inv_aggregate: "counts_inv rs (contigs_of (aggregate rs))"
proof (induction rs rule: rev_induct)
  case Nil
  show ?case by (simp add: counts_inv_def aggregate_def contigs_of_def)
next
  case (snoc r rs)
  then show ?case
    using counts_inv_step [of rs "aggregate rs" r]
    by (simp add: aggregate_def parse_loop_snoc)
qed

lemma entry_counts:
  assumes "(k, ci) \<in> set (contigs_of (aggregate rs))"
  shows "totalvariants ci = count_contig k rs \<and> passvariants ci = count_pass k rs"
proof -
  have inv: "counts_inv rs (contigs_of (aggregate rs))" by (rule counts_inv_aggregate)
  then have "map_of (contigs_of (aggregate rs)) k = Some ci"
    using assms by (simp add: counts_inv_def)
  with inv show ?thesis by (simp add: counts_inv_def)
qed


lemma aggregate_take_in_points:
  "contigs_of (parse_loop (take n rs) st) \<in> insert (contigs_of st) (set (loop_points rs st))"
proof (induction rs arbitrary: n st)
  case Nil
  show ?case by simp
next
  case (Cons r rs)
  show ?case
  proof (cases n)
    case 0
    then show ?thesis by simp
  next
    case (Suc m)
    have "contigs_of (parse_record r st) \<in> set (record_points r (contigs_of st))"
      using record_points_nonempty [of r "contigs_of st"] by (simp add: last_record_points)
    with Cons.IH [of m "parse_record r st"] Suc show ?thesis by auto
  qed
qed

text \<open>
  C3. At every point of the loop of \<open>_parse_vcf_data\<close>, also between the two
  increments of one iteration, every entry of \<open>contigs\<close> has
  \<open>passvariants \<le> totalvariants\<close>; the states between iterations are among these
  points, and there \<open>passvariants\<close> is the number of records read so far on that contig
  whose \<open>FILTER\<close> is empty or unset, and \<open>totalvariants\<close> the number of records on it.
\<close>

theorem passvariants_le_totalvariants:
  "(cs \<in> set (contig_points recs) \<longrightarrow> (k, ci) \<in> set cs \<longrightarrow>
      passvariants ci \<le> totalvariants ci) \<and>
   contigs_of (aggregate (take n recs)) \<in> set (contig_points recs) \<and>
   ((k, ci) \<in> set (contigs_of (aggregate (take n recs))) \<longrightarrow>
      passvariants ci = count_pass k (take n recs) \<and>
      totalvariants ci = count_contig k (take n recs) \<and>
      passvariants ci \<le> totalvariants ci)"
proof (intro conjI impI)
  assume "cs \<in> set (contig_points recs)" and "(k, ci) \<in> set cs"
  then show "passvariants ci \<le> totalvariants ci"
    using pass_le_total_contig_points [of recs] by (auto simp: pass_le_total_def)
next
  show pt: "contigs_of (aggregate (take n recs)) \<in> set (contig_points recs)"
    using aggregate_take_in_points [of n recs "(0, [], [])"]
    by (simp add: aggregate_def contig_points_def contigs_of_def)
  assume mem: "(k, ci) \<in> set (contigs_of (aggregate (take n recs)))"
  then show "passvariants ci = count_pass k (take n recs)"
    and "totalvariants ci = count_contig k (take n recs)"
    using entry_counts [of k ci "take n recs"] by simp_all
  show "passvariants ci \<le> totalvariants ci"
    using pt mem pass_le_total_contig_points [of recs] by (auto simp: pass_le_total_def)
qed

theorem passvariants_le_totalvariants_witness:
  "bump_total ''2'' (contigs_of (aggregate (take 3 demo_records)))
     \<in> set (contig_points demo_records) \<and>
   (''2'', \<lparr>contig_id = ''2'', totalvariants = 2, passvariants = 1, length_field = 3\<rparr>)
     \<in> set (bump_total ''2'' (contigs_of (aggregate (take 3 demo_records)))) \<and>
   (''1'', \<lparr>contig_id = ''1'', totalvariants = 2, passvariants = 1, length_field = 1\<rparr>)
     \<in> set (contigs_of (aggregate (take 3 demo_records))) \<and>
   count_pass ''1'' (take 3 demo_records) = 1 \<and>
   count_contig ''1'' (take 3 demo_records) = 2"
proof -
  let ?mid = "bump_total ''2'' (contigs_of (aggregate (take 3 demo_records)))"
  let ?c2 = "\<lparr>contig_id = ''2'', totalvariants = 2, passvariants = 1, length_field = 3\<rparr>"
  let ?c1 = "\<lparr>contig_id = ''1'', totalvariants = 2, passvariants = 1, length_field = 1\<rparr>"
  have h1: "?mid \<in> set (contig_points demo_records)" by code_simp
  have h2: "(''2'', ?c2) \<in> set ?mid" by code_simp
  have h3: "(''1'', ?c1) \<in> set (contigs_of (aggregate (take 3 demo_records)))" by code_simp
  have "passvariants ?c2 \<le> totalvariants ?c2"
    using passvariants_le_totalvariants [of ?mid demo_records "''2''" ?c2 3] h1 h2 by blast
  moreover have "passvariants ?c1 = count_pass ''1'' (take 3 demo_records) \<and>
      totalvariants ?c1 = count_contig ''1'' (take 3 demo_records)"
    using passvariants_le_totalvariants [of ?mid demo_records "''1''" ?c1 3] h3 by blast
  ultimately show ?thesis using h1 h2 h3 by simp
qed

section \<open>Cross-validation\<close>

lemma not_found_validate_vcf_to_sample:
  "not_found (validate_vcf_to_sample vcf_genotypes sample_ids) =
     filter (\<lambda>geno. geno \<notin> set (map normalise sample_ids)) (map normalise vcf_genotypes)"
  by (simp add: validate_vcf_to_sample_def normalise_def [abs_def] Let_def)

lemma not_found_chk_if_vcf_ids_in_assembly:
  "not_found (chk_if_vcf_ids_in_assembly vcf_chromosomes assembly_chromosomes) =
     filter (\<lambda>chromo. chromo \<notin> set assembly_chromosomes) vcf_chromosomes"
  by (simp add: chk_if_vcf_ids_in_assembly_def Let_def)

text \<open>
  C1, as the code has it. The sample check compares upper-cased and stripped
  identifiers on both sides and reports the normalised forms: the normalised form of a
  VCF genotype is reported exactly when no sample id has the same normalised form. The
  assembly check compares the identifiers as they are: a chromosome id is reported
  exactly when it is not itself among the assembly's contig ids.
\<close>

theorem cross_validation_comparisons:
  "(g \<in> set vcf_genotypes \<longrightarrow>
      (normalise g \<in> set (not_found (validate_vcf_to_sample vcf_genotypes sample_ids))
         \<longleftrightarrow> (\<forall>s \<in> set sample_ids. normalise s \<noteq> normalise g))) \<and>
   set (not_found (validate_vcf_to_sample vcf_genotypes sample_ids))
     \<subseteq> normalise ` set vcf_genotypes \<and>
   (c \<in> set (not_found (chk_if_vcf_ids_in_assembly vcf_chromosomes assembly_chromosomes))
      \<longleftrightarrow> c \<in> set vcf_chromosomes \<and> c \<notin> set assembly_chromosomes)"
  unfolding not_found_validate_vcf_to_sample not_found_chk_if_vcf_ids_in_assembly
  by (auto simp: image_iff)

theorem cross_validation_comparisons_witness:
  "''Sample_X'' \<in> set [''Sample_X'', ''s2''] \<and>
   normalise ''Sample_X'' \<notin> set (not_found (validate_vcf_to_sample [''Sample_X'', ''s2''] [''sample_x ''])) \<and>
   normalise ''sample_x '' = normalise ''Sample_X'' \<and>
   ''chr1'' \<in> set (not_found (chk_if_vcf_ids_in_assembly [''chr1'', ''2''] [''CHR1'', ''2'']))"
proof -
  have h: "''Sample_X'' \<in> set [''Sample_X'', ''s2'']" by simp
  have eq: "normalise ''sample_x '' = normalise ''Sample_X''" by code_simp
  have "normalise ''Sample_X'' \<notin> set (not_found (validate_vcf_to_sample [''Sample_X'', ''s2''] [''sample_x '']))"
    using cross_validation_comparisons [of "''Sample_X''" "[''Sample_X'', ''s2'']" "[''sample_x '']"] h eq
    by simp
  moreover have "''chr1'' \<in> set (not_found (chk_if_vcf_ids_in_assembly [''chr1'', ''2''] [''CHR1'', ''2'']))"
    using cross_validation_comparisons [of _ _ _ "''chr1''" "[''chr1'', ''2'']" "[''CHR1'', ''2'']"]
    by simp
  ultimately show ?thesis using h eq by simp
qed

text \<open>
  The assembly check reports \<open>chr1\<close> although the assembly has \<open>CHR1\<close>, which equals it
  after upper-casing and stripping both.
\<close>

theorem assembly_check_case_sensitive:
  "''chr1'' \<in> set (not_found (chk_if_vcf_ids_in_assembly [''chr1''] [''CHR1''])) \<and>
   ''CHR1'' \<in> set [''CHR1''] \<and>
   normalise ''CHR1'' = normalise ''chr1''"
  by code_simp

section \<open>Validation\<close>

lemma written_simps [simp]:
  "written [] = []"
  "written (WriteFile p c # tr) = p # written tr"
  by (simp_all add: written_def)

lemma write_report_no_popen: "filter is_popen (fst (write_report p f out)) = []"
  by (simp add: write_report_def is_popen_def emit_def)

lemma try_block_no_popen: "filter is_popen (fst (snd (try_block w p f out))) = []"
  by (auto simp: try_block_def Let_def write_report_no_popen split: list.splits option.splits)

lemma interpret_output_no_popen: "filter is_popen (fst (interpret_output w p f out)) = []"
proof -
  obtain fname tr r where tb: "try_block w p f out = (fname, tr, r)"
    by (cases "try_block w p f out") auto
  have tr: "filter is_popen tr = []"
    using try_block_no_popen [of w p f out] tb by simp
  show ?thesis
    using tr write_report_no_popen [of p fname out]
    by (auto simp: interpret_output_def tb split: sum.splits error.splits)
qed

lemma float_ge_41_imp_4: "float_ge v (Finite (41 / 10)) \<Longrightarrow> float_ge v (Finite 4)"
  by (cases v) simp_all

text \<open>
  C4. Once the parameters are present, the file is staged and its version detected,
  \<open>validate_vcf\<close> starts exactly one process: \<open>vcf_validator_linux\<close> for a version of
  at least 4.1 and \<open>vcf-validator\<close> for one of at least 4.0 and below 4.1; for any other
  version it raises the version error and starts none.
\<close>

theorem validator_dispatch:
  assumes "params ''genome_ref'' \<noteq> None" and "params ''vcf_staging_file_path'' \<noteq> None"
    and "stage_input_result w params = Inr (vcf_filepath, orig)"
    and "get_vcf_version (file_text w vcf_filepath) = Inr v"
  shows "(float_ge v (Finite (41 / 10)) \<longrightarrow>
            filter is_popen (trace (validate_vcf w params)) =
              [Popen [''vcf_validator_linux'', ''-i'', vcf_filepath, ''-l'', ''error'']]) \<and>
         (float_ge v (Finite 4) \<and> \<not> float_ge v (Finite (41 / 10)) \<longrightarrow>
            filter is_popen (trace (validate_vcf w params)) =
              [Popen [''vcf-validator'', vcf_filepath]]) \<and>
         (\<not> float_ge v (Finite 4) \<longrightarrow>
            outcome (validate_vcf w params) = Inl (ValueError version_message) \<and>
            filter is_popen (trace (validate_vcf w params)) = [])"
  using assms float_ge_41_imp_4 [of v]
  by (auto simp: validate_vcf_def stage_input_def select_validator_def Let_def trace_def
      outcome_def is_popen_def interpret_output_no_popen)

theorem validator_dispatch_witness:
  "filter is_popen
     (trace (validate_vcf (demo_world\<lparr>file_text := (\<lambda>_. ''##fileformat=VCFv4.1'' @ [CHR 0x0A])\<rparr>)
               demo_params)) =
     [Popen [''vcf_validator_linux'', ''-i'', ''/staging/sample.vcf'', ''-l'', ''error'']] \<and>
   filter is_popen (trace (validate_vcf demo_world demo_params)) =
     [Popen [''vcf-validator'', ''/staging/sample.vcf'']] \<and>
   outcome (validate_vcf (demo_world\<lparr>file_text := (\<lambda>_. ''##fileformat=VCFv3.9'' @ [CHR 0x0A])\<rparr>)
              demo_params) = Inl (ValueError version_message) \<and>
   filter is_popen
     (trace (validate_vcf (demo_world\<lparr>file_text := (\<lambda>_. ''##fileformat=VCFv3.9'' @ [CHR 0x0A])\<rparr>)
               demo_params)) = []"
proof -
  let ?w41 = "demo_world\<lparr>file_text := (\<lambda>_. ''##fileformat=VCFv4.1'' @ [CHR 0x0A])\<rparr>"
  let ?w39 = "demo_world\<lparr>file_text := (\<lambda>_. ''##fileformat=VCFv3.9'' @ [CHR 0x0A])\<rparr>"
  let ?orig = "''/kb/module/work/tmp/original_sample.vcf''"
  have p1: "demo_params ''genome_ref'' \<noteq> None"
    and p2: "demo_params ''vcf_staging_file_path'' \<noteq> None"
    by (simp_all add: demo_params_def)
  have s40: "stage_input_result demo_world demo_params = Inr (''/staging/sample.vcf'', ?orig)"
    and s41: "stage_input_result ?w41 demo_params = Inr (''/staging/sample.vcf'', ?orig)"
    and s39: "stage_input_result ?w39 demo_params = Inr (''/staging/sample.vcf'', ?orig)"
    by (simp_all add: demo_world_def)
  have v40: "get_vcf_version (file_text demo_world ''/staging/sample.vcf'') = Inr (Finite 4)"
    by code_simp
  have v41: "get_vcf_version (file_text ?w41 ''/staging/sample.vcf'') = Inr (Finite (41 / 10))"
    by code_simp
  have v39: "get_vcf_version (file_text ?w39 ''/staging/sample.vcf'') = Inr (Finite (39 / 10))"
    by code_simp
  show ?thesis
    using validator_dispatch [OF p1 p2 s41 v41] validator_dispatch [OF p1 p2 s40 v40]
      validator_dispatch [OF p1 p2 s39 v39]
    by simp
qed

section \<open>Version detection\<close>

lemma split_on_no_sep: "sep \<notin> set s \<Longrightarrow> split_on sep s = [s]"
  by (induction s) auto

lemma get_vcf_version_no_equals:
  assumes "CHR ''='' \<notin> set (readline text)" and "startswith (readline text) ''##fileformat''"
  shows "get_vcf_version text = Inl IndexError"
  using assms by (simp add: get_vcf_version_def split_on_no_sep)

lemma split_on_nonempty: "split_on sep s \<noteq> []"
  by (induction s) (auto split: list.splits)

lemma get_vcf_version_wrong_token:
  assumes "\<not> startswith (hd (split_on CHR ''='' (readline text))) ''##fileformat''"
  shows "get_vcf_version text = Inl (ValueError fileformat_message)"
proof (cases "split_on CHR ''='' (readline text)")
  case Nil
  then show ?thesis using split_on_nonempty by blast
next
  case (Cons t0 ts)
  with assms show ?thesis by (simp add: get_vcf_version_def)
qed

lemma parsed_version_major_only:
  "py_float (slice 4 6 (''VCFv4.'' @ rest)) = Inr (Finite 4)"
proof -
  have "slice 4 6 (''VCFv4.'' @ rest) = ''4.''"
    by (simp add: slice_def)
  moreover have "py_float ''4.'' = Inr (Finite 4)"
    by code_simp
  ultimately show ?thesis by simp
qed

text \<open>
  C5. For a file whose first line is \<open>##fileformat=VCFv4.2\<close>, \<open>_parse_vcf_data\<close>
  records the version 4.0, the float of the two characters \<open>4.\<close>, while
  \<open>_get_vcf_version\<close> returns 4.2.
\<close>

theorem parse_vcf_data_version_42:
  "outcome (parse_vcf_data demo_world_42 demo_params) =
     Inr (demo_info, ''/kb/module/work/tmp/original_sample.vcf'') \<and>
   version demo_info = Finite 4 \<and>
   get_vcf_version (file_text demo_world_42 ''/staging/sample.vcf'') = Inr (Finite (42 / 10))"
  by code_simp

text \<open>
  C6. A first line \<open>##fileformat\<close> without \<open>=\<close> passes the test of the token, and the
  read of \<open>tokens[1]\<close> raises IndexError, which is not a ValueError.
\<close>

theorem get_vcf_version_index_error:
  "get_vcf_version (''##fileformat'' @ [CHR 0x0A]) = Inl IndexError"
  by code_simp

section \<open>Interpretation of the validator's output\<close>

lemma interpret_output_nothing_retained:
  "interpret_output w p f [] = ([WriteFile f (success_text p)], Inr f)"
  by (simp add: interpret_output_def try_block_def write_report_def raise_def emit_def)

lemma interpret_output_first_unmarked:
  assumes "out \<noteq> []" and "take 6 (hd out) \<noteq> ''[info]''"
  shows "interpret_output w p f out =
           ([WriteFile f (concat out)], Inl (ValueError (join [CHR 0x0A] out)))"
  using assms
  by (cases out) (simp_all add: interpret_output_def try_block_def write_report_def)

lemma retain_info_unmarked:
  "\<forall>line \<in> set lines. \<not> startswith (strip line) ''[info]'' \<Longrightarrow> retain_info lines = []"
  by (simp add: retain_info_def)

text \<open>
  C7. The legacy validator prints one diagnostic line, which has no \<open>[info]\<close> marker.
  The line is dropped when the output is read, and \<open>validate_vcf\<close> writes the success
  report and returns its path.
\<close>

theorem validate_vcf_drops_diagnostics:
  "validate_vcf (demo_world\<lparr>validator_lines := (\<lambda>_. [demo_diagnostic])\<rparr>) demo_params =
     ([StageInput,
       Mkdir ''/kb/module/work/tmp/validation_u1'',
       Popen [''vcf-validator'', ''/staging/sample.vcf''],
       WriteFile ''/kb/module/work/tmp/validation_u1/vcf_validation.txt''
         (success_text ''/staging/sample.vcf'')],
      Inr ''/kb/module/work/tmp/validation_u1/vcf_validation.txt'')"
  by code_simp

section \<open>Missing parameters\<close>

lemma validate_vcf_missing_key:
  assumes "params ''genome_ref'' = None \<or> params ''vcf_staging_file_path'' = None"
  shows "validate_vcf w params =
           ([], Inl (TypeError (''can only concatenate str (not '' @ [CHR 0x22] @ ''dict'' @
                                [CHR 0x22] @ '') to str'')))"
  using assms by (auto simp: validate_vcf_def concat_str_dict_def)

text \<open>
  C10. Without \<open>genome_ref\<close>, or with it and without \<open>vcf_staging_file_path\<close>,
  \<open>validate_vcf\<close> raises before it stages or validates anything, and what it raises
  is the TypeError of adding a dict to a str, not a ValueError.
\<close>

theorem validate_vcf_missing_key_type_error:
  "validate_vcf w Map.empty =
     ([], Inl (TypeError (''can only concatenate str (not '' @ [CHR 0x22] @ ''dict'' @
                          [CHR 0x22] @ '') to str''))) \<and>
   validate_vcf w [''genome_ref'' \<mapsto> ''1/2/3''] =
     ([], Inl (TypeError (''can only concatenate str (not '' @ [CHR 0x22] @ ''dict'' @
                          [CHR 0x22] @ '') to str'')))"
  by (simp add: validate_vcf_missing_key)

section \<open>Saving happens last\<close>

lemma no_save_io_bind:
  assumes "filter is_save (fst m) = []" and "\<And>x. filter is_save (fst (f x)) = []"
  shows "filter is_save (fst (io_bind m f)) = []"
proof (cases m)
  case (Pair tr r)
  show ?thesis
  proof (cases r)
    case (Inl e)
    with Pair assms(1) show ?thesis by simp
  next
    case (Inr x)
    with Pair assms(1) assms(2) [of x] show ?thesis by simp
  qed
qed

lemma no_save_basic [simp]:
  "filter is_save (fst (emit StageInput)) = []"
  "filter is_save (fst (emit (Mkdir d))) = []"
  "filter is_save (fst (emit (Popen cmd))) = []"
  "filter is_save (fst (emit (WriteFile p c))) = []"
  "filter is_save (fst (emit (Print s))) = []"
  "filter is_save (fst (emit (CopyFile a b))) = []"
  "filter is_save (fst (emit (GzipFile p))) = []"
  "filter is_save (fst (emit (GetObjectSubset i r))) = []"
  "filter is_save (fst (emit (FileToShock p))) = []"
  by (simp_all add: emit_def is_save_def)

lemma no_save_lookup [simp]: "filter is_save (fst (lookup params key)) = []"
  by (simp add: lookup_def split: option.splits)

lemma write_report_no_save: "filter is_save (fst (write_report p f out)) = []"
  by (simp add: write_report_def is_save_def emit_def)

lemma try_block_no_save: "filter is_save (fst (snd (try_block w p f out))) = []"
  by (auto simp: try_block_def Let_def write_report_no_save split: list.splits option.splits)

lemma interpret_output_no_save: "filter is_save (fst (interpret_output w p f out)) = []"
proof -
  obtain fname tr r where tb: "try_block w p f out = (fname, tr, r)"
    by (cases "try_block w p f out") auto
  have tr: "filter is_save tr = []"
    using try_block_no_save [of w p f out] tb by simp
  show ?thesis
    using tr write_report_no_save [of p fname out]
    by (auto simp: interpret_output_def tb split: sum.splits error.splits)
qed

lemma no_save_if:
  "filter is_save (fst a) = [] \<Longrightarrow> filter is_save (fst b) = [] \<Longrightarrow>
   filter is_save (fst (if c then a else b)) = []"
  by simp

lemma no_save_case_option:
  "filter is_save (fst a) = [] \<Longrightarrow> (\<And>y. filter is_save (fst (b y)) = []) \<Longrightarrow>
   filter is_save (fst (case x of None \<Rightarrow> a | Some y \<Rightarrow> b y)) = []"
  by (cases x) simp_all

lemma no_save_case_chk:
  "filter is_save (fst a) = [] \<Longrightarrow> (\<And>y. filter is_save (fst (b y)) = []) \<Longrightarrow>
   filter is_save (fst (case x of AllFound \<Rightarrow> a | NotFound y \<Rightarrow> b y)) = []"
  by (cases x) simp_all

lemma no_save_case_prod3:
  "(\<And>a b c. filter is_save (fst (f a b c)) = []) \<Longrightarrow>
   filter is_save (fst (case x of (a, b, c) \<Rightarrow> f a b c)) = []"
  by (cases x) simp_all

lemma no_save_pure [simp]:
  "filter is_save (fst (ret x)) = []"
  "filter is_save (fst (raise e)) = []"
  "filter is_save (fst (lift r)) = []"
  by simp_all

lemmas no_save_intros =
  no_save_io_bind no_save_if no_save_case_option no_save_case_chk no_save_case_prod3
  no_save_basic no_save_pure no_save_lookup

lemma validate_vcf_no_save: "filter is_save (fst (validate_vcf w params)) = []"
  unfolding validate_vcf_def stage_input_def Let_def
  by (intro no_save_intros interpret_output_no_save)

lemma parse_vcf_data_no_save: "filter is_save (fst (parse_vcf_data w params)) = []"
  unfolding parse_vcf_data_def stage_input_def Let_def
  by (intro no_save_intros)

lemma validate_assembly_ids_no_save:
  "filter is_save (fst (validate_assembly_ids w info params)) = []"
  unfolding validate_assembly_ids_def
  by (intro no_save_intros)

lemma validate_sample_ids_no_save:
  "filter is_save (fst (validate_sample_ids w info params)) = []"
  unfolding validate_sample_ids_def
  by (intro no_save_intros)

lemma construct_variation_no_save:
  "filter is_save (fst (construct_variation w info original_file params contigs_info)) = []"
  unfolding construct_variation_def Let_def
  by (intro no_save_intros)

lemma construct_variation_mismatch:
  assumes "file_to_shock w original_file = Inr ref"
    and "md5_sum_local_file w original_file \<noteq> remote_md5 (handle ref) \<or> falsy (shock_id ref)"
  shows "\<exists>msg. outcome (construct_variation w info original_file params contigs_info) =
           Inl (ValueError msg)"
  using assms
  by (auto simp: construct_variation_def Let_def outcome_def io_bind_lift)

lemma file_to_shock_in_trace:
  "FileToShock original_file
     \<in> set (trace (construct_variation w info original_file params contigs_info))"
  by (auto simp: construct_variation_def Let_def trace_def)

lemma validate_assembly_ids_result:
  assumes "params ''genome_ref'' = Some gref" and "genome_assembly_ref w gref = Inr aref"
    and "assembly_contig_ids w aref = Inr assembly_chromosomes"
  shows "validate_assembly_ids w info params =
           ([GetObjectSubset ''/assembly_ref'' gref, GetObjectSubset ''/contigs'' aref] @
            (case chk_if_vcf_ids_in_assembly (chromosome_ids info) assembly_chromosomes of
               AllFound \<Rightarrow> []
             | NotFound ids \<Rightarrow>
                 [Print (''VCF contig ids: '' @ join '' '' ids @
                         '' are not present in assembly.'')]),
            Inr (assembly_chromosomes, info\<lparr>assembly_ref := Some aref\<rparr>))"
  using assms
  by (simp add: validate_assembly_ids_def lookup_def split: chk_result.splits)

lemma validate_sample_ids_result:
  assumes "params ''sample_attribute_ref'' = Some sref"
    and "sample_instance_ids w sref = Inr sample_ids"
  shows "validate_sample_ids w info params =
           ([GetObjectSubset ''/instances'' sref] @
            (case validate_vcf_to_sample (genotype_ids info) sample_ids of
               AllFound \<Rightarrow> []
             | NotFound ids \<Rightarrow>
                 [Print (''VCF genotypes: '' @ join '' '' ids @
                         '' are not present in sample attribute mapping.'')]),
            Inr sample_ids)"
  using assms
  by (simp add: validate_sample_ids_def lookup_def split: chk_result.splits)


lemma fst_io_bind:
  "fst (io_bind m f) = (case snd m of Inl e \<Rightarrow> fst m | Inr x \<Rightarrow> fst m @ fst (f x))"
  by (cases m; cases "snd m") (auto simp: io_bind_def split: prod.splits)

lemma snd_io_bind:
  "snd (io_bind m f) = (case snd m of Inl e \<Rightarrow> Inl e | Inr x \<Rightarrow> snd (f x))"
  by (cases m; cases "snd m") (auto simp: io_bind_def split: prod.splits)

lemma parse_vcf_data_original_file:
  assumes "outcome (parse_vcf_data w params) = Inr parsed"
    and "stage_input_result w params = Inr (p, original_file)"
  shows "snd parsed = original_file"
  using parse_vcf_data_result [of w params "fst parsed" "snd parsed"] assms by auto

text \<open>
  C8. When the checksum the storage reports differs from the local one, or the storage
  returns no identifier, \<open>_construct_variation\<close> raises a ValueError; \<open>import_vcf\<close>,
  which uploads the file \<open>_stage_input\<close> left in \<open>self.original_file\<close>, then ends in
  an error and never calls \<open>save_objects\<close>.
\<close>

theorem checksum_mismatch_not_saved:
  assumes "file_to_shock w original_file = Inr ref"
    and "md5_sum_local_file w original_file \<noteq> remote_md5 (handle ref) \<or> falsy (shock_id ref)"
  shows "(\<exists>msg. outcome (construct_variation w info original_file params contigs_info) =
            Inl (ValueError msg)) \<and>
         (stage_input_result w params = Inr (p, original_file) \<longrightarrow>
            isl (outcome (import_vcf w params)) \<and>
            filter is_save (trace (import_vcf w params)) = [])"
proof (intro conjI impI)
  show "\<exists>msg. outcome (construct_variation w info original_file params contigs_info) =
          Inl (ValueError msg)"
    using assms by (rule construct_variation_mismatch)
next
  assume staged: "stage_input_result w params = Inr (p, original_file)"
  have orig: "b = original_file" if "outcome (parse_vcf_data w params) = Inr (a, b)" for a b
    using parse_vcf_data_original_file [OF that staged] by simp
  have fails: "outcome (construct_variation w i original_file params ci) \<noteq> Inr v" for i ci v
    using construct_variation_mismatch [OF assms, of i params ci] by auto
  show "isl (outcome (import_vcf w params))"
    using fails orig
    by (auto simp: import_vcf_def outcome_io_bind Let_def split: sum.splits)
  show "filter is_save (trace (import_vcf w params)) = []"
    using fails orig validate_vcf_no_save [of w params] parse_vcf_data_no_save [of w params]
      validate_assembly_ids_no_save [of w _ params] validate_sample_ids_no_save [of w _ params]
      construct_variation_no_save [of w _ _ params]
    by (auto simp: import_vcf_def fst_io_bind snd_io_bind trace_def outcome_def Let_def
        split: sum.splits)
qed


theorem checksum_mismatch_not_saved_witness:
  "file_to_shock (demo_world\<lparr>md5_sum_local_file := (\<lambda>_. ''xyz'')\<rparr>)
     ''/kb/module/work/tmp/original_sample.vcf'' =
     Inr \<lparr>shock_id = Some ''sid'', handle = \<lparr>hid = ''KBH_1'', remote_md5 = ''abc''\<rparr>\<rparr> \<and>
   outcome (construct_variation (demo_world\<lparr>md5_sum_local_file := (\<lambda>_. ''xyz'')\<rparr>) demo_info
              ''/kb/module/work/tmp/original_sample.vcf'' demo_params []) =
     Inl (ValueError ''Local md5 xyz does not match shock md5 abc'') \<and>
   isl (outcome (import_vcf (demo_world\<lparr>md5_sum_local_file := (\<lambda>_. ''xyz'')\<rparr>) demo_params)) \<and>
   filter is_save (trace (import_vcf (demo_world\<lparr>md5_sum_local_file := (\<lambda>_. ''xyz'')\<rparr>)
                            demo_params)) = []"
proof -
  let ?w = "demo_world\<lparr>md5_sum_local_file := (\<lambda>_. ''xyz'')\<rparr>"
  let ?orig = "''/kb/module/work/tmp/original_sample.vcf''"
  let ?ref = "\<lparr>shock_id = Some ''sid'', handle = \<lparr>hid = ''KBH_1'', remote_md5 = ''abc''\<rparr>\<rparr>"
  have up: "file_to_shock ?w ?orig = Inr ?ref"
    by (simp add: demo_world_def)
  have differ: "md5_sum_local_file ?w ?orig \<noteq> remote_md5 (handle ?ref) \<or> falsy (shock_id ?ref)"
    by simp
  have staged: "stage_input_result ?w demo_params = Inr (''/staging/sample.vcf'', ?orig)"
    by (simp add: demo_world_def)
  have raised: "outcome (construct_variation ?w demo_info ?orig demo_params []) =
      Inl (ValueError ''Local md5 xyz does not match shock md5 abc'')"
    by code_simp
  show ?thesis
    using checksum_mismatch_not_saved [where w = ?w and params = demo_params
        and info = demo_info and contigs_info = "[]" and p = "''/staging/sample.vcf''",
        OF up differ] up staged raised
    by simp
qed

section \<open>The identifier checks do not stop the run\<close>

text \<open>
  C9. When the workspace answers the look-ups, \<open>_validate_assembly_ids\<close> and
  \<open>_validate_sample_ids\<close> return the reference ids whatever the comparison finds;
  unresolved ids only add a printed line. After a successful validation and parse,
  \<open>import_vcf\<close> then reaches \<open>_construct_variation\<close> and uploads the file.
\<close>

theorem identifier_checks_advisory:
  assumes "params ''genome_ref'' = Some gref" and "genome_assembly_ref w gref = Inr aref"
    and "assembly_contig_ids w aref = Inr assembly_chromosomes"
    and "params ''sample_attribute_ref'' = Some sref"
    and "sample_instance_ids w sref = Inr sample_ids"
  shows "validate_assembly_ids w info params =
           ([GetObjectSubset ''/assembly_ref'' gref, GetObjectSubset ''/contigs'' aref] @
            (case chk_if_vcf_ids_in_assembly (chromosome_ids info) assembly_chromosomes of
               AllFound \<Rightarrow> []
             | NotFound ids \<Rightarrow>
                 [Print (''VCF contig ids: '' @ join '' '' ids @
                         '' are not present in assembly.'')]),
            Inr (assembly_chromosomes, info\<lparr>assembly_ref := Some aref\<rparr>)) \<and>
         validate_sample_ids w info params =
           ([GetObjectSubset ''/instances'' sref] @
            (case validate_vcf_to_sample (genotype_ids info) sample_ids of
               AllFound \<Rightarrow> []
             | NotFound ids \<Rightarrow>
                 [Print (''VCF genotypes: '' @ join '' '' ids @
                         '' are not present in sample attribute mapping.'')]),
            Inr sample_ids) \<and>
         (outcome (validate_vcf w params) = Inr report \<and>
          outcome (parse_vcf_data w params) = Inr (parsed_info, original_file) \<longrightarrow>
            FileToShock original_file \<in> set (trace (import_vcf w params)))"
proof (intro conjI impI)
  show "validate_assembly_ids w info params =
           ([GetObjectSubset ''/assembly_ref'' gref, GetObjectSubset ''/contigs'' aref] @
            (case chk_if_vcf_ids_in_assembly (chromosome_ids info) assembly_chromosomes of
               AllFound \<Rightarrow> []
             | NotFound ids \<Rightarrow>
                 [Print (''VCF contig ids: '' @ join '' '' ids @
                         '' are not present in assembly.'')]),
            Inr (assembly_chromosomes, info\<lparr>assembly_ref := Some aref\<rparr>))"
    using validate_assembly_ids_result [where params = params and w = w and info = info]
      assms(1-3) by blast
  show "validate_sample_ids w info params =
           ([GetObjectSubset ''/instances'' sref] @
            (case validate_vcf_to_sample (genotype_ids info) sample_ids of
               AllFound \<Rightarrow> []
             | NotFound ids \<Rightarrow>
                 [Print (''VCF genotypes: '' @ join '' '' ids @
                         '' are not present in sample attribute mapping.'')]),
            Inr sample_ids)"
    using validate_sample_ids_result [where params = params and w = w and info = info]
      assms(4,5) by blast
next
  assume ok: "outcome (validate_vcf w params) = Inr report \<and>
      outcome (parse_vcf_data w params) = Inr (parsed_info, original_file)"
  let ?info = "parsed_info\<lparr>assembly_ref := Some aref\<rparr>"
  have a: "snd (validate_assembly_ids w parsed_info params) = Inr (assembly_chromosomes, ?info)"
    using validate_assembly_ids_result [where params = params and w = w and info = parsed_info]
      assms(1-3) by simp
  have s: "snd (validate_sample_ids w ?info params) = Inr sample_ids"
    using validate_sample_ids_result [where params = params and w = w and info = ?info]
      assms(4,5) by simp
  have "FileToShock original_file
      \<in> set (fst (construct_variation w ?info original_file params (construct_contig_info ?info)))"
    using file_to_shock_in_trace [of original_file w ?info params] by (simp add: trace_def)
  then show "FileToShock original_file \<in> set (trace (import_vcf w params))"
    using ok a s
    by (simp add: import_vcf_def fst_io_bind snd_io_bind trace_def outcome_def Let_def
        split: sum.splits)
qed

theorem identifier_checks_advisory_witness:
  "trace (validate_assembly_ids demo_world demo_info demo_params) =
     [GetObjectSubset ''/assembly_ref'' ''1/2/3'', GetObjectSubset ''/contigs'' ''1/5/1'',
      Print ''VCF contig ids: 2 are not present in assembly.''] \<and>
   outcome (validate_assembly_ids demo_world demo_info demo_params) =
     Inr ([''1'', ''3''], demo_info\<lparr>assembly_ref := Some ''1/5/1''\<rparr>) \<and>
   trace (validate_sample_ids demo_world demo_info demo_params) =
     [GetObjectSubset ''/instances'' ''1/4/1'',
      Print ''VCF genotypes: S2 are not present in sample attribute mapping.''] \<and>
   outcome (validate_sample_ids demo_world demo_info demo_params) = Inr [''sample_x''] \<and>
   FileToShock ''/kb/module/work/tmp/original_sample.vcf''
     \<in> set (trace (import_vcf demo_world demo_params))"
proof -
  let ?orig = "''/kb/module/work/tmp/original_sample.vcf''"
  let ?report = "''/kb/module/work/tmp/validation_u1/vcf_validation.txt''"
  have g: "demo_params ''genome_ref'' = Some ''1/2/3''"
    and sa: "demo_params ''sample_attribute_ref'' = Some ''1/4/1''"
    by (simp_all add: demo_params_def)
  have ar: "genome_assembly_ref demo_world ''1/2/3'' = Inr ''1/5/1''"
    and ac: "assembly_contig_ids demo_world ''1/5/1'' = Inr [''1'', ''3'']"
    and si: "sample_instance_ids demo_world ''1/4/1'' = Inr [''sample_x'']"
    by (simp_all add: demo_world_def)
  have v: "outcome (validate_vcf demo_world demo_params) = Inr ?report"
    by code_simp
  have p: "outcome (parse_vcf_data demo_world demo_params) = Inr (demo_info, ?orig)"
    by code_simp
  have c1: "chk_if_vcf_ids_in_assembly (chromosome_ids demo_info) [''1'', ''3''] = NotFound [''2'']"
    by code_simp
  have c2: "validate_vcf_to_sample (genotype_ids demo_info) [''sample_x''] = NotFound [''S2'']"
    by code_simp
  show ?thesis
    using identifier_checks_advisory [where params = demo_params and w = demo_world
        and info = demo_info and report = ?report and parsed_info = demo_info
        and original_file = ?orig, OF g ar ac sa si]
      v p c1 c2
    by simp
qed

end
